theory Spec2Isabelle
  imports Main "HOL-Library.Word"
begin

section \<open>The perception processor of easy\_perception\_deployment\<close>

text \<open>
  A shallow embedding of \<^verbatim>\<open>include/epd_utils_lib/processor.hpp\<close>: the constructor of
  \<^verbatim>\<open>Processor\<close> and its two callbacks, \<^verbatim>\<open>image_callback\<close> and \<^verbatim>\<open>localize_callback\<close>.

  A callback mutates the member \<^verbatim>\<open>ortAgent_\<close>, logs, calls the inference sessions,
  publishes and may throw. The model passes the agent explicitly and returns an
  \<open>outcome\<close>: the agent as the callback leaves it, the list of effects in program order,
  and the exception that escaped, if any.
\<close>

subsection \<open>Messages and images\<close>

type_synonym uint32 = "32 word"

text \<open>
  Floating-point values (scores, positions, physical dimensions) are only copied by this
  file, never computed with: they are carried as their bit patterns.
\<close>

type_synonym flt = "32 word"

text \<open>\<^verbatim>\<open>sensor_msgs::msg::Image\<close>: the fields the callbacks read, and the payload.\<close>

record Image =
  height :: uint32
  width :: uint32
  encoding :: string
  data :: "8 word list"

text \<open>\<^verbatim>\<open>cv::Mat\<close>: \<^verbatim>\<open>cols\<close> and \<^verbatim>\<open>rows\<close> are C++ \<^verbatim>\<open>int\<close>; they are only compared and copied.\<close>

record Mat =
  cols :: int
  rows :: int
  pixels :: "8 word list"

record CameraInfo =
  cam_height :: uint32
  cam_width :: uint32
  cam_k :: "flt list"

text \<open>\<^verbatim>\<open>sensor_msgs::msg::RegionOfInterest\<close>: four unsigned 32-bit fields and a flag.\<close>

record RegionOfInterest =
  x_offset :: uint32
  y_offset :: uint32
  roi_width :: uint32
  roi_height :: uint32
  do_rectify :: bool

subsection \<open>Inference results (\<^verbatim>\<open>epd_container.hpp\<close>)\<close>

text \<open>
  Modelled from the spec: the structs \<^verbatim>\<open>EPD::EPDObjectDetection\<close> and
  \<^verbatim>\<open>EPD::EPDObjectLocalization\<close> are declared in \<^verbatim>\<open>epd_container.hpp\<close>, which is
  missing; the fields are the ones \<^verbatim>\<open>processor.hpp\<close> reads. A box is the four
  coordinates \<open>(x1, y1, x2, y2)\<close>, integers as in the spec's example.
\<close>

record EPDObjectDetection =
  data_size :: nat
  classIndices :: "nat list"
  scores :: "flt list"
  bboxes :: "(int \<times> int \<times> int \<times> int) list"
  masks :: "Mat list"

record EPDLocalizedObject =
  name :: string
  pos :: "flt \<times> flt \<times> flt"
  roi :: RegionOfInterest
  breadth :: flt
  obj_length :: flt
  obj_height :: flt

record EPDObjectLocalization =
  loc_data_size :: nat
  objects :: "EPDLocalizedObject list"

subsection \<open>Output messages (\<^verbatim>\<open>epd_msgs\<close>)\<close>

record EPDImageClassificationMsg =
  object_names :: "string list"

record EPDObjectDetectionMsg =
  msg_class_indices :: "nat list"
  msg_scores :: "flt list"
  msg_bboxes :: "RegionOfInterest list"
  msg_masks :: "Image list"

text \<open>\<^verbatim>\<open>epd_msgs::msg::LocalizedObject\<close>, filled field by field from the engine's object.\<close>

record LocalizedObject =
  msg_name :: string
  msg_pos :: "flt \<times> flt \<times> flt"
  msg_roi :: RegionOfInterest
  msg_breadth :: flt
  msg_length :: flt
  msg_height :: flt

text \<open>The header of the localization message is the default-constructed one; it is left out.\<close>

record EPDObjectLocalizationMsg =
  frame_width_out :: int
  frame_height_out :: int
  depth_image :: Image
  camera_info :: CameraInfo
  num_objects :: nat
  msg_objects :: "LocalizedObject list"
  roi_array :: "RegionOfInterest list"
  process_time :: int

text \<open>One constructor per publisher member of \<^verbatim>\<open>Processor\<close>.\<close>

datatype publication =
    Visual_pub Image
  | P1_pub EPDImageClassificationMsg
  | P2_pub EPDObjectDetectionMsg
  | P3_pub EPDObjectDetectionMsg
  | Localize_pub EPDObjectLocalizationMsg

subsection \<open>Exceptions and effects\<close>

text \<open>
  \<open>RuntimeError\<close> is \<^verbatim>\<open>std::runtime_error\<close>; \<open>Foreign\<close> is whatever a collaborator
  (the image decoder, the engine) throws; \<open>OutOfRange\<close> stands for the undefined behaviour of
  \<^verbatim>\<open>operator[]\<close> past the end of a vector.
\<close>

datatype exn = RuntimeError string | Foreign string | OutOfRange

text \<open>The inference operations, with their arguments.\<close>

datatype call =
    Call_p1_infer Mat
  | Call_p2_infer_visualize Mat
  | Call_p2_infer_action Mat
  | Call_p3_infer_visualize Mat
  | Call_p3_infer_action Mat
  | Call_p3_localize_visualize Mat Mat CameraInfo
  | Call_p3_localize_action Mat Mat CameraInfo

datatype event =
    Warn string
  | InitEngine int int
  | Infer call
  | Publish publication
  | Info int

subsection \<open>The agent (\<^verbatim>\<open>EPD::EPDContainer\<close>)\<close>

text \<open>
  Modelled from the spec: the class \<^verbatim>\<open>EPD::EPDContainer\<close> lives in the missing
  \<^verbatim>\<open>epd_container.hpp\<close>. Its state is the spec's Session State: \<open>initialized\<close>, the locked
  width and height, the precision tier, the visualize flag and the use-case mode. The
  accessors read and write one field each.
\<close>

record EPDContainer =
  hasInit :: bool
  frame_width :: int
  frame_height :: int
  precision_level :: int
  visualize :: bool
  useCaseMode :: int

text \<open>
  Modelled from the spec: the accessors of \<^verbatim>\<open>EPDContainer\<close>, defined in the missing
  \<^verbatim>\<open>epd_container.hpp\<close>; getters and setters of the Session State fields.
\<close>

definition isInit :: "EPDContainer \<Rightarrow> bool" where
  "isInit a = hasInit a"

definition isVisualize :: "EPDContainer \<Rightarrow> bool" where
  "isVisualize a = visualize a"

definition getWidth :: "EPDContainer \<Rightarrow> int" where
  "getWidth a = frame_width a"

definition getHeight :: "EPDContainer \<Rightarrow> int" where
  "getHeight a = frame_height a"

definition setFrameDimension :: "int \<Rightarrow> int \<Rightarrow> EPDContainer \<Rightarrow> EPDContainer" where
  "setFrameDimension w h a = a\<lparr>frame_width := w, frame_height := h\<rparr>"

definition setInitBoolean :: "bool \<Rightarrow> EPDContainer \<Rightarrow> EPDContainer" where
  "setInitBoolean b a = a\<lparr>hasInit := b\<rparr>"

subsection \<open>The collaborators\<close>

text \<open>
  Everything the callbacks call and this file does not define: the decoder
  \<^verbatim>\<open>cv_bridge::toCvCopy\<close> (it may throw), the encoder \<^verbatim>\<open>toImageMsg\<close>, the engine's
  construction (it may throw: \<open>Some e\<close>), the inference operations of the three sessions
  (each returns or throws), and the two readings of the clock, in nanoseconds.
\<close>

record env =
  toCvCopy :: "Image \<Rightarrow> string \<Rightarrow> exn + Mat"
  toImageMsg :: "string \<Rightarrow> Mat \<Rightarrow> Image"
  initORTSessionHandler :: "EPDContainer \<Rightarrow> exn option"
  p1_infer :: "Mat \<Rightarrow> exn + string list"
  p2_infer_visualize :: "Mat \<Rightarrow> exn + Mat"
  p2_infer_action :: "Mat \<Rightarrow> exn + EPDObjectDetection"
  p3_infer_visualize :: "Mat \<Rightarrow> exn + Mat"
  p3_infer_action :: "Mat \<Rightarrow> exn + EPDObjectDetection"
  p3_localize_visualize :: "Mat \<Rightarrow> Mat \<Rightarrow> CameraInfo \<Rightarrow> exn + Mat"
  p3_localize_action :: "Mat \<Rightarrow> Mat \<Rightarrow> CameraInfo \<Rightarrow> exn + EPDObjectLocalization"
  clock_begin :: int
  clock_end :: int

text \<open>\<^verbatim>\<open>duration_cast<milliseconds>(end - begin).count()\<close>: truncation towards zero.\<close>

definition elapsedTime :: "env \<Rightarrow> int" where
  "elapsedTime env =
     (let d = clock_end env - clock_begin env
      in if 0 \<le> d then d div 1000000 else - ((- d) div 1000000))"

subsection \<open>Outcomes\<close>

record outcome =
  agent :: EPDContainer
  events :: "event list"
  thrown :: "exn option"

definition returns :: "EPDContainer \<Rightarrow> event list \<Rightarrow> outcome" where
  "returns a es = \<lparr>agent = a, events = es, thrown = None\<rparr>"

definition throws :: "EPDContainer \<Rightarrow> event list \<Rightarrow> exn \<Rightarrow> outcome" where
  "throws a es e = \<lparr>agent = a, events = es, thrown = Some e\<rparr>"

text \<open>Sequencing: the rest of the body runs only if nothing was thrown so far.\<close>

definition and_then :: "outcome \<Rightarrow> (EPDContainer \<Rightarrow> outcome) \<Rightarrow> outcome" where
  "and_then r f =
     (case thrown r of
        Some e \<Rightarrow> r
      | None \<Rightarrow> (let r' = f (agent r) in r'\<lparr>events := events r @ events r'\<rparr>))"

subsection \<open>The initialization block\<close>

text \<open>
  Lines 178--192 of \<^verbatim>\<open>localize_callback\<close> and lines 265--279 of \<^verbatim>\<open>image_callback\<close>, the
  same text in both: initialize on the first frame, otherwise compare the dimensions.
  The comparison is the source's: \<^verbatim>\<open>getWidth() != img.cols && getHeight() != img.rows\<close>.
\<close>

definition init_block :: "env \<Rightarrow> Mat \<Rightarrow> EPDContainer \<Rightarrow> outcome" where
  "init_block env img a =
     (if \<not> isInit a then
        (let a1 = setFrameDimension (cols img) (rows img) a
         in case initORTSessionHandler env a1 of
              Some e \<Rightarrow> throws a1 [InitEngine (cols img) (rows img)] e
            | None \<Rightarrow> returns (setInitBoolean True a1) [InitEngine (cols img) (rows img)])
      else if getWidth a \<noteq> cols img \<and> getHeight a \<noteq> rows img then
        throws a [] (RuntimeError ''Input camera changed. Please restart.'')
      else returns a [])"

subsection \<open>The loops that fill the detection messages\<close>

text \<open>
  Lines 312--318 and 340--346: the differences are taken on the coordinates, and the
  assignments to the unsigned fields convert.
\<close>

definition make_roi :: "int \<times> int \<times> int \<times> int \<Rightarrow> RegionOfInterest" where
  "make_roi b =
     (case b of (b0, b1, b2, b3) \<Rightarrow>
        \<lparr>x_offset = word_of_int b0, y_offset = word_of_int b1,
         roi_width = word_of_int (b2 - b0), roi_height = word_of_int (b3 - b1),
         do_rectify = False\<rparr>)"

definition empty_detection_msg :: EPDObjectDetectionMsg where
  "empty_detection_msg =
     \<lparr>msg_class_indices = [], msg_scores = [], msg_bboxes = [], msg_masks = []\<rparr>"

text \<open>
  \<^verbatim>\<open>for (size_t i = 0; i < result.data_size; i++)\<close>, as a recursion over the indices
  \<open>[0..<data_size]\<close>. Reading a vector past its end is undefined in C++: the model stops
  with \<open>OutOfRange\<close>.
\<close>

fun p2_loop :: "EPDObjectDetection \<Rightarrow> nat list \<Rightarrow> EPDObjectDetectionMsg
    \<Rightarrow> exn + EPDObjectDetectionMsg" where
  "p2_loop result [] m = Inr m"
| "p2_loop result (i # is) m =
     (if i < length (classIndices result) \<and> i < length (scores result)
         \<and> i < length (bboxes result)
      then p2_loop result is
             (m\<lparr>msg_class_indices := msg_class_indices m @ [classIndices result ! i],
                msg_scores := msg_scores m @ [scores result ! i],
                msg_bboxes := msg_bboxes m @ [make_roi (bboxes result ! i)]\<rparr>)
      else Inl OutOfRange)"

fun p3_loop :: "env \<Rightarrow> EPDObjectDetection \<Rightarrow> nat list \<Rightarrow> EPDObjectDetectionMsg
    \<Rightarrow> exn + EPDObjectDetectionMsg" where
  "p3_loop env result [] m = Inr m"
| "p3_loop env result (i # is) m =
     (if i < length (classIndices result) \<and> i < length (scores result)
         \<and> i < length (bboxes result) \<and> i < length (masks result)
      then p3_loop env result is
             (m\<lparr>msg_class_indices := msg_class_indices m @ [classIndices result ! i],
                msg_scores := msg_scores m @ [scores result ! i],
                msg_bboxes := msg_bboxes m @ [make_roi (bboxes result ! i)],
                msg_masks := msg_masks m @ [toImageMsg env ''32FC1'' (masks result ! i)]\<rparr>)
      else Inl OutOfRange)"

subsection \<open>\<^verbatim>\<open>Processor::image_callback\<close>\<close>

text \<open>
  The \<^verbatim>\<open>switch (ortAgent_.precision_level)\<close> of lines 284--357. It has no
  \<^verbatim>\<open>default\<close>: any other value falls through to the end of the callback.
\<close>

definition image_switch :: "env \<Rightarrow> Mat \<Rightarrow> EPDContainer \<Rightarrow> outcome" where
  "image_switch env img a =
     (if precision_level a = 1 then
        (case p1_infer env img of
           Inl e \<Rightarrow> throws a [Infer (Call_p1_infer img)] e
         | Inr names \<Rightarrow>
             returns a [Infer (Call_p1_infer img), Publish (P1_pub \<lparr>object_names = names\<rparr>)])
      else if precision_level a = 2 then
        (if isVisualize a then
           (case p2_infer_visualize env img of
              Inl e \<Rightarrow> throws a [Infer (Call_p2_infer_visualize img)] e
            | Inr resultImg \<Rightarrow>
                returns a [Infer (Call_p2_infer_visualize img),
                           Publish (Visual_pub (toImageMsg env ''bgr8'' resultImg))])
         else
           (case p2_infer_action env img of
              Inl e \<Rightarrow> throws a [Infer (Call_p2_infer_action img)] e
            | Inr result \<Rightarrow>
                (case p2_loop result [0..<data_size result] empty_detection_msg of
                   Inl e \<Rightarrow> throws a [Infer (Call_p2_infer_action img)] e
                 | Inr output_msg \<Rightarrow>
                     returns a [Infer (Call_p2_infer_action img),
                                Publish (P2_pub output_msg)])))
      else if precision_level a = 3 then
        (if isVisualize a then
           (case p3_infer_visualize env img of
              Inl e \<Rightarrow> throws a [Infer (Call_p3_infer_visualize img)] e
            | Inr resultImg \<Rightarrow>
                returns a [Infer (Call_p3_infer_visualize img),
                           Publish (Visual_pub (toImageMsg env ''bgr8'' resultImg))])
         else
           (case p3_infer_action env img of
              Inl e \<Rightarrow> throws a [Infer (Call_p3_infer_action img)] e
            | Inr result \<Rightarrow>
                (case p3_loop env result [0..<data_size result] empty_detection_msg of
                   Inl e \<Rightarrow> throws a [Infer (Call_p3_infer_action img)] e
                 | Inr output_msg \<Rightarrow>
                     returns a [Infer (Call_p3_infer_action img),
                                Publish (P3_pub output_msg)])))
      else returns a [])"

definition image_callback :: "env \<Rightarrow> Image \<Rightarrow> EPDContainer \<Rightarrow> outcome" where
  "image_callback env msg a =
     (if height msg = 0 then returns a [Warn ''Input image empty. Discarding.'']
      else
        (case toCvCopy env msg ''bgr8'' of
           Inl e \<Rightarrow> throws a [] e
         | Inr img \<Rightarrow>
             and_then (init_block env img a) (\<lambda>a1.
             and_then (image_switch env img a1) (\<lambda>a2.
               returns a2 [Info (elapsedTime env)]))))"

subsection \<open>\<^verbatim>\<open>Processor::localize_callback\<close>\<close>

text \<open>The loop of lines 225--236: one message object and one region per localized object.\<close>

fun localize_loop :: "EPDObjectLocalization \<Rightarrow> nat list \<Rightarrow> EPDObjectLocalizationMsg
    \<Rightarrow> exn + EPDObjectLocalizationMsg" where
  "localize_loop result [] m = Inr m"
| "localize_loop result (i # is) m =
     (if i < length (objects result)
      then localize_loop result is
             (m\<lparr>msg_objects := msg_objects m @
                  [\<lparr>msg_name = name (objects result ! i),
                    msg_pos = pos (objects result ! i),
                    msg_roi = roi (objects result ! i),
                    msg_breadth = breadth (objects result ! i),
                    msg_length = obj_length (objects result ! i),
                    msg_height = obj_height (objects result ! i)\<rparr>],
                roi_array := roi_array m @ [roi (objects result ! i)]\<rparr>)
      else Inl OutOfRange)"

text \<open>
  Lines 196--245. The session used is always \<^verbatim>\<open>p3_ort_session\<close>, with the three-argument
  operations; \<^verbatim>\<open>precision_level\<close> is not read. In the structured branch the elapsed time
  is logged before the message is published.
\<close>

definition localize_body :: "env \<Rightarrow> Mat \<Rightarrow> Mat \<Rightarrow> Image \<Rightarrow> CameraInfo \<Rightarrow> EPDContainer
    \<Rightarrow> outcome" where
  "localize_body env img depth_img depth_msg cam a =
     (if isVisualize a then
        (case p3_localize_visualize env img depth_img cam of
           Inl e \<Rightarrow> throws a [Infer (Call_p3_localize_visualize img depth_img cam)] e
         | Inr resultImg \<Rightarrow>
             returns a [Infer (Call_p3_localize_visualize img depth_img cam),
                        Publish (Visual_pub (toImageMsg env ''bgr8'' resultImg)),
                        Info (elapsedTime env)])
      else
        (case p3_localize_action env img depth_img cam of
           Inl e \<Rightarrow> throws a [Infer (Call_p3_localize_action img depth_img cam)] e
         | Inr result \<Rightarrow>
             (case localize_loop result [0..<loc_data_size result]
                     \<lparr>frame_width_out = cols img, frame_height_out = rows img,
                      depth_image = depth_msg, camera_info = cam,
                      num_objects = loc_data_size result,
                      msg_objects = [], roi_array = [], process_time = 0\<rparr> of
                Inl e \<Rightarrow> throws a [Infer (Call_p3_localize_action img depth_img cam)] e
              | Inr output_msg \<Rightarrow>
                  returns a [Infer (Call_p3_localize_action img depth_img cam),
                             Info (elapsedTime env),
                             Publish (Localize_pub
                               (output_msg\<lparr>process_time := elapsedTime env\<rparr>))])))"

definition localize_callback :: "env \<Rightarrow> Image \<Rightarrow> Image \<Rightarrow> CameraInfo \<Rightarrow> EPDContainer
    \<Rightarrow> outcome" where
  "localize_callback env msg depth_msg cam a =
     (if height msg = 0 then returns a [Warn ''Input image empty. Discarding.'']
      else
        (case toCvCopy env msg ''bgr8'' of
           Inl e \<Rightarrow> throws a [] e
         | Inr img \<Rightarrow>
             (case toCvCopy env depth_msg ''16UC1'' of
                Inl e \<Rightarrow> throws a [] e
              | Inr depth_img \<Rightarrow>
                  and_then (init_block env img a) (\<lambda>a1.
                    localize_body env img depth_img depth_msg cam a1))))"

subsection \<open>\<^verbatim>\<open>Processor::Processor\<close>\<close>

text \<open>
  The constructor (lines 112--151) creates the subscription of \<^verbatim>\<open>image_callback\<close> and the
  five publishers unconditionally, and registers \<^verbatim>\<open>localize_callback\<close> with the
  synchronizer when \<^verbatim>\<open>useCaseMode == 3\<close>.
\<close>

datatype callback = Image_callback | Localize_callback

record Processor =
  image_sub :: "(string \<times> callback) option"
  publishers :: "string list"
  sync_callback :: "callback option"

definition Processor_ctor :: "EPDContainer \<Rightarrow> Processor" where
  "Processor_ctor ortAgent =
     \<lparr>image_sub = Some (''/processor/image_input'', Image_callback),
      publishers = [''/processor/output'', ''/processor/epd_p1_output'',
                    ''/processor/epd_p2_output'', ''/processor/epd_p3_output'',
                    ''/processor/epd_localize_output''],
      sync_callback = (if useCaseMode ortAgent = 3 then Some Localize_callback else None)\<rparr>"

text \<open>A route is active when its callback is registered.\<close>

definition single_stream_active :: "Processor \<Rightarrow> bool" where
  "single_stream_active n =
     (case image_sub n of Some (topic, cb) \<Rightarrow> cb = Image_callback | None \<Rightarrow> False)"

definition multi_stream_active :: "Processor \<Rightarrow> bool" where
  "multi_stream_active n = (sync_callback n = Some Localize_callback)"

subsection \<open>Sequences of invocations\<close>

text \<open>
  The executor delivers one message (or one synchronized tuple) at a time, each with its
  own behaviour of the collaborators. What a throwing callback has written to the agent
  stays written. Whether anything is delivered after a throw is decided outside this file:
  \<open>run\<close> delivers the whole list, and a process that stops earlier sees a prefix.
\<close>

datatype invocation =
    On_image env Image
  | On_tuple env Image Image CameraInfo

fun deliver :: "invocation \<Rightarrow> EPDContainer \<Rightarrow> outcome" where
  "deliver (On_image env msg) a = image_callback env msg a"
| "deliver (On_tuple env msg depth_msg cam) a = localize_callback env msg depth_msg cam a"

fun run :: "invocation list \<Rightarrow> EPDContainer \<Rightarrow> EPDContainer \<times> event list" where
  "run [] a = (a, [])"
| "run (i # is) a =
     (let r = deliver i a; (a', es) = run is (agent r) in (a', events r @ es))"

fun primary :: "invocation \<Rightarrow> Image" where
  "primary (On_image env msg) = msg"
| "primary (On_tuple env msg depth_msg cam) = msg"

text \<open>The decoded primary image, when every decoding of the invocation succeeds.\<close>

fun decoded :: "invocation \<Rightarrow> Mat option" where
  "decoded (On_image env msg) =
     (case toCvCopy env msg ''bgr8'' of Inl e \<Rightarrow> None | Inr img \<Rightarrow> Some img)"
| "decoded (On_tuple env msg depth_msg cam) =
     (case toCvCopy env msg ''bgr8'' of
        Inl e \<Rightarrow> None
      | Inr img \<Rightarrow>
          (case toCvCopy env depth_msg ''16UC1'' of Inl e \<Rightarrow> None | Inr d \<Rightarrow> Some img))"

fun env_of :: "invocation \<Rightarrow> env" where
  "env_of (On_image env msg) = env"
| "env_of (On_tuple env msg depth_msg cam) = env"

subsection \<open>Observations on an outcome\<close>

fun published :: "event list \<Rightarrow> publication list" where
  "published [] = []"
| "published (Publish p # es) = p # published es"
| "published (e # es) = published es"

fun calls :: "event list \<Rightarrow> call list" where
  "calls [] = []"
| "calls (Infer c # es) = c # calls es"
| "calls (e # es) = calls es"

fun constructions :: "event list \<Rightarrow> nat" where
  "constructions [] = 0"
| "constructions (InitEngine w h # es) = Suc (constructions es)"
| "constructions (e # es) = constructions es"

datatype channel = Ch_visual | Ch_p1 | Ch_p2 | Ch_p3 | Ch_localize

fun channel_of :: "publication \<Rightarrow> channel" where
  "channel_of (Visual_pub m) = Ch_visual"
| "channel_of (P1_pub m) = Ch_p1"
| "channel_of (P2_pub m) = Ch_p2"
| "channel_of (P3_pub m) = Ch_p3"
| "channel_of (Localize_pub m) = Ch_localize"


subsection \<open>Concrete inputs\<close>

text \<open>
  A camera of 640 by 480 pixels, an engine that answers every call, and one that throws.
  The decoder keeps the dimensions of the message.
\<close>

definition demo_detection :: EPDObjectDetection where
  "demo_detection =
     \<lparr>data_size = 1, classIndices = [7], scores = [1065353216],
      bboxes = [(10, 20, 50, 80)],
      masks = [\<lparr>cols = 2, rows = 1, pixels = [0, 255]\<rparr>]\<rparr>"

definition demo_object :: EPDLocalizedObject where
  "demo_object =
     \<lparr>name = ''cup'', pos = (1, 2, 3),
      roi = \<lparr>x_offset = 10, y_offset = 20, roi_width = 40, roi_height = 60,
             do_rectify = False\<rparr>,
      breadth = 4, obj_length = 5, obj_height = 6\<rparr>"

definition demo_localization :: EPDObjectLocalization where
  "demo_localization = \<lparr>loc_data_size = 1, objects = [demo_object]\<rparr>"

definition demo_env :: env where
  "demo_env =
     \<lparr>toCvCopy = (\<lambda>m enc. Inr \<lparr>cols = uint (width m), rows = uint (height m),
                                pixels = data m\<rparr>),
      toImageMsg = (\<lambda>enc m. \<lparr>height = word_of_int (rows m), width = word_of_int (cols m),
                              encoding = enc, data = pixels m\<rparr>),
      initORTSessionHandler = (\<lambda>a. None),
      p1_infer = (\<lambda>img. Inr [''cup'']),
      p2_infer_visualize = (\<lambda>img. Inr img),
      p2_infer_action = (\<lambda>img. Inr demo_detection),
      p3_infer_visualize = (\<lambda>img. Inr img),
      p3_infer_action = (\<lambda>img. Inr demo_detection),
      p3_localize_visualize = (\<lambda>img d cam. Inr img),
      p3_localize_action = (\<lambda>img d cam. Inr demo_localization),
      clock_begin = 0, clock_end = 42000000\<rparr>"

definition failing_env :: env where
  "failing_env =
     demo_env\<lparr>p1_infer := (\<lambda>img. Inl (Foreign ''session'')),
              p3_localize_action := (\<lambda>img d cam. Inl (Foreign ''session''))\<rparr>"

text \<open>An engine that reports two detections, and one whose construction throws.\<close>

definition demo_detections :: EPDObjectDetection where
  "demo_detections =
     \<lparr>data_size = 2, classIndices = [7, 3], scores = [1065353216, 1056964608],
      bboxes = [(10, 20, 50, 80), (0, 5, 640, 480)],
      masks = [\<lparr>cols = 2, rows = 1, pixels = [0, 255]\<rparr>,
               \<lparr>cols = 1, rows = 1, pixels = [9]\<rparr>]\<rparr>"

definition pair_env :: env where
  "pair_env =
     demo_env\<lparr>p2_infer_action := (\<lambda>img. Inr demo_detections),
              p3_infer_action := (\<lambda>img. Inr demo_detections)\<rparr>"

definition broken_env :: env where
  "broken_env = demo_env\<lparr>initORTSessionHandler := (\<lambda>a. Some (Foreign ''model''))\<rparr>"

text \<open>Clock readings that are not whole milliseconds apart.\<close>

definition late_env :: env where
  "late_env = demo_env\<lparr>clock_begin := 1500000, clock_end := 43999999\<rparr>"

text \<open>A decoder that rejects every message.\<close>

definition deaf_env :: env where
  "deaf_env = demo_env\<lparr>toCvCopy := (\<lambda>m enc. Inl (Foreign ''encoding''))\<rparr>"

definition frame :: "int \<Rightarrow> int \<Rightarrow> Image" where
  "frame w h = \<lparr>height = word_of_int h, width = word_of_int w, encoding = ''bgr8'', data = []\<rparr>"

definition demo_cam :: CameraInfo where
  "demo_cam = \<lparr>cam_height = 480, cam_width = 640, cam_k = []\<rparr>"

definition fresh_agent :: "int \<Rightarrow> bool \<Rightarrow> int \<Rightarrow> EPDContainer" where
  "fresh_agent tier vis mode =
     \<lparr>hasInit = False, frame_width = 0, frame_height = 0, precision_level = tier,
      visualize = vis, useCaseMode = mode\<rparr>"

definition locked_agent :: "int \<Rightarrow> bool \<Rightarrow> int \<Rightarrow> EPDContainer" where
  "locked_agent tier vis mode =
     \<lparr>hasInit = True, frame_width = 640, frame_height = 480, precision_level = tier,
      visualize = vis, useCaseMode = mode\<rparr>"

section \<open>Properties\<close>

subsection \<open>Sequencing and observations\<close>

lemma and_then_returns: "thrown r = None \<Longrightarrow>
  and_then r f = (f (agent r))\<lparr>events := events r @ events (f (agent r))\<rparr>"
  by (simp add: and_then_def Let_def)

lemma and_then_throws: "thrown r = Some e \<Longrightarrow> and_then r f = r"
  by (simp add: and_then_def)

lemma thrown_and_then:
  "thrown (and_then r f) = (case thrown r of Some e \<Rightarrow> Some e | None \<Rightarrow> thrown (f (agent r)))"
  by (simp add: and_then_def Let_def split: option.splits)

lemma events_and_then:
  "events (and_then r f) =
     events r @ (case thrown r of Some e \<Rightarrow> [] | None \<Rightarrow> events (f (agent r)))"
  by (simp add: and_then_def Let_def split: option.splits)

lemma agent_and_then:
  "agent (and_then r f) = (case thrown r of Some e \<Rightarrow> agent r | None \<Rightarrow> agent (f (agent r)))"
  by (simp add: and_then_def Let_def split: option.splits)

lemma published_append: "published (xs @ ys) = published xs @ published ys"
  by (induction xs rule: published.induct) simp_all

lemma calls_append: "calls (xs @ ys) = calls xs @ calls ys"
  by (induction xs rule: calls.induct) simp_all

lemma constructions_append: "constructions (xs @ ys) = constructions xs + constructions ys"
  by (induction xs rule: constructions.induct) simp_all

lemma init_block_config:
  "precision_level (agent (init_block env img a)) = precision_level a"
  "isVisualize (agent (init_block env img a)) = isVisualize a"
  "useCaseMode (agent (init_block env img a)) = useCaseMode a"
  by (simp_all add: init_block_def Let_def returns_def throws_def setFrameDimension_def
      setInitBoolean_def isVisualize_def split: option.splits)

lemma init_block_quiet:
  "published (events (init_block env img a)) = []"
  "calls (events (init_block env img a)) = []"
  by (simp_all add: init_block_def Let_def returns_def throws_def split: option.splits)

lemma image_switch_agent: "agent (image_switch env img a) = a"
  by (simp add: image_switch_def returns_def throws_def split: sum.splits)


lemma image_switch_cong:
  assumes "precision_level a' = precision_level a" "isVisualize a' = isVisualize a"
  shows "events (image_switch env img a') = events (image_switch env img a)"
    and "thrown (image_switch env img a') = thrown (image_switch env img a)"
  using assms
  by (simp_all add: image_switch_def returns_def throws_def split: sum.splits)

lemma image_callback_decoded:
  assumes "height msg \<noteq> 0" "toCvCopy env msg ''bgr8'' = Inr img"
  shows "image_callback env msg a =
           and_then (init_block env img a) (\<lambda>a1.
           and_then (image_switch env img a1) (\<lambda>a2. returns a2 [Info (elapsedTime env)]))"
  using assms by (simp add: image_callback_def)

lemma image_callback_events:
  assumes "height msg \<noteq> 0" "toCvCopy env msg ''bgr8'' = Inr img"
  shows "events (image_callback env msg a) =
     events (init_block env img a) @
     (case thrown (init_block env img a) of
        Some e \<Rightarrow> []
      | None \<Rightarrow> events (image_switch env img a) @
          (case thrown (image_switch env img a) of
             Some e \<Rightarrow> [] | None \<Rightarrow> [Info (elapsedTime env)]))"
  using image_switch_cong[of "agent (init_block env img a)" a env img]
  by (simp add: image_callback_decoded[OF assms] events_and_then thrown_and_then
      init_block_config returns_def split: option.splits)

lemma image_callback_thrown:
  assumes "height msg \<noteq> 0" "toCvCopy env msg ''bgr8'' = Inr img"
  shows "thrown (image_callback env msg a) =
     (case thrown (init_block env img a) of
        Some e \<Rightarrow> Some e
      | None \<Rightarrow> thrown (image_switch env img a))"
  using image_switch_cong[of "agent (init_block env img a)" a env img]
  by (simp add: image_callback_decoded[OF assms] events_and_then thrown_and_then
      init_block_config returns_def split: option.splits)

lemma image_callback_agent:
  assumes "height msg \<noteq> 0" "toCvCopy env msg ''bgr8'' = Inr img"
  shows "agent (image_callback env msg a) = agent (init_block env img a)"
  by (simp add: image_callback_decoded[OF assms] agent_and_then thrown_and_then
      image_switch_agent returns_def split: option.splits)

lemma image_callback_published:
  assumes "height msg \<noteq> 0" "toCvCopy env msg ''bgr8'' = Inr img"
  shows "published (events (image_callback env msg a)) =
     (case thrown (init_block env img a) of
        Some e \<Rightarrow> []
      | None \<Rightarrow> published (events (image_switch env img a)))"
  by (simp add: image_callback_events[OF assms] published_append init_block_quiet
      split: option.splits)


subsection \<open>The empty-frame guard\<close>

text \<open>
  C4: a primary image of height 0 is discarded on either route: the callback logs the
  warning and returns; the agent (initialized flag, locked width and height) is
  unchanged, the engine is not constructed, no inference operation is called and nothing
  is published.
\<close>

theorem empty_frame_discarded:
  assumes "height msg = 0"
  shows "agent (image_callback env msg a) = a
       \<and> events (image_callback env msg a) = [Warn ''Input image empty. Discarding.'']
       \<and> thrown (image_callback env msg a) = None
       \<and> agent (localize_callback env msg depth_msg cam a) = a
       \<and> events (localize_callback env msg depth_msg cam a) =
           [Warn ''Input image empty. Discarding.'']
       \<and> thrown (localize_callback env msg depth_msg cam a) = None"
  using assms by (simp add: image_callback_def localize_callback_def returns_def)

theorem empty_frame_discarded_witness:
  "height (frame 640 0) = 0
   \<and> agent (image_callback demo_env (frame 640 0) (fresh_agent 2 False 0)) = fresh_agent 2 False 0
   \<and> events (image_callback demo_env (frame 640 0) (fresh_agent 2 False 0)) =
       [Warn ''Input image empty. Discarding.'']
   \<and> agent (localize_callback demo_env (frame 640 0) (frame 640 480) demo_cam
        (fresh_agent 2 False 0)) = fresh_agent 2 False 0
   \<and> events (localize_callback demo_env (frame 640 0) (frame 640 480) demo_cam
        (fresh_agent 2 False 0)) = [Warn ''Input image empty. Discarding.'']"
proof -
  have h: "height (frame 640 0) = 0" by (simp add: frame_def)
  show ?thesis
    using h empty_frame_discarded[OF h, where env = demo_env and a = "fresh_agent 2 False 0"
        and depth_msg = "frame 640 480" and cam = demo_cam]
    by simp
qed

subsection \<open>The dimension check\<close>

lemmas eval_defs = image_callback_def localize_callback_def localize_body_def
  image_switch_def init_block_def and_then_def returns_def throws_def
  demo_env_def failing_env_def pair_env_def broken_env_def demo_detections_def
  frame_def fresh_agent_def locked_agent_def demo_cam_def
  demo_detection_def demo_localization_def demo_object_def
  isInit_def isVisualize_def getWidth_def getHeight_def setFrameDimension_def
  setInitBoolean_def elapsedTime_def empty_detection_msg_def make_roi_def Let_def

text \<open>
  C1: after initialization, a frame whose width or height differs from the locked one
  should be fatal. The source tests \<^verbatim>\<open>getWidth() != img.cols && getHeight() != img.rows\<close>,
  against its own comment ("If either dim changed, throw runtime error"): with 640 by 480
  locked, a frame of 640 by 240 on the single-stream route, and a tuple of 320 by 480 on
  the synchronized route, are accepted and sent to inference.
\<close>

theorem one_changed_dimension_is_accepted:
  "thrown (image_callback demo_env (frame 640 240) (locked_agent 2 False 0)) = None
   \<and> calls (events (image_callback demo_env (frame 640 240) (locked_agent 2 False 0))) =
       [Call_p2_infer_action \<lparr>cols = 640, rows = 240, pixels = []\<rparr>]
   \<and> thrown (localize_callback demo_env (frame 320 480) (frame 320 480) demo_cam
        (locked_agent 3 False 3)) = None
   \<and> calls (events (localize_callback demo_env (frame 320 480) (frame 320 480) demo_cam
        (locked_agent 3 False 3))) =
       [Call_p3_localize_action \<lparr>cols = 320, rows = 480, pixels = []\<rparr>
          \<lparr>cols = 320, rows = 480, pixels = []\<rparr> demo_cam]"
  by (simp add: eval_defs upt_rec)

subsection \<open>The routes\<close>

text \<open>
  C2, as stated, fails: with \<open>useCaseMode = 3\<close> both routes are active.
\<close>

theorem routes_counterexample:
  "useCaseMode (fresh_agent 3 False 3) = 3
   \<and> multi_stream_active (Processor_ctor (fresh_agent 3 False 3))
   \<and> single_stream_active (Processor_ctor (fresh_agent 3 False 3))"
  by (simp add: fresh_agent_def Processor_ctor_def single_stream_active_def
      multi_stream_active_def)

text \<open>
  C2, amended: the single-stream route is active for every configuration; the
  synchronized route is active exactly when \<open>useCaseMode = 3\<close>.
\<close>

theorem routes_selected:
  "single_stream_active (Processor_ctor a)
   \<and> (multi_stream_active (Processor_ctor a) \<longleftrightarrow> useCaseMode a = 3)"
  by (simp add: Processor_ctor_def single_stream_active_def multi_stream_active_def)

theorem routes_selected_witness:
  "single_stream_active (Processor_ctor (fresh_agent 2 True 1))
   \<and> \<not> multi_stream_active (Processor_ctor (fresh_agent 2 True 1))
   \<and> single_stream_active (Processor_ctor (fresh_agent 3 False 3))
   \<and> multi_stream_active (Processor_ctor (fresh_agent 3 False 3))"
  using routes_selected[of "fresh_agent 2 True 1"] routes_selected[of "fresh_agent 3 False 3"]
  by (simp add: fresh_agent_def)

subsection \<open>The detection messages\<close>

lemma p2_loop_eq:
  "p2_loop result is m =
     (if \<forall>i \<in> set is. i < length (classIndices result) \<and> i < length (scores result)
            \<and> i < length (bboxes result)
      then Inr (m\<lparr>msg_class_indices := msg_class_indices m @ map ((!) (classIndices result)) is,
                  msg_scores := msg_scores m @ map ((!) (scores result)) is,
                  msg_bboxes := msg_bboxes m @ map (\<lambda>i. make_roi (bboxes result ! i)) is\<rparr>)
      else Inl OutOfRange)"
  by (induction "is" arbitrary: m) auto

lemma p3_loop_eq:
  "p3_loop env result is m =
     (if \<forall>i \<in> set is. i < length (classIndices result) \<and> i < length (scores result)
            \<and> i < length (bboxes result) \<and> i < length (masks result)
      then Inr (m\<lparr>msg_class_indices := msg_class_indices m @ map ((!) (classIndices result)) is,
                  msg_scores := msg_scores m @ map ((!) (scores result)) is,
                  msg_bboxes := msg_bboxes m @ map (\<lambda>i. make_roi (bboxes result ! i)) is,
                  msg_masks := msg_masks m @
                    map (\<lambda>i. toImageMsg env ''32FC1'' (masks result ! i)) is\<rparr>)
      else Inl OutOfRange)"
  by (induction "is" arbitrary: m) auto

lemma upt_in_range: "(\<forall>i \<in> {0..<n::nat}. i < k) \<longleftrightarrow> n \<le> k"
proof
  assume all: "\<forall>i \<in> {0..<n}. i < k"
  show "n \<le> k"
  proof (rule ccontr)
    assume "\<not> n \<le> k"
    then have "k \<in> {0..<n}" by (simp add: not_le)
    with all have "k < k" by blast
    then show False by simp
  qed
qed auto

lemma image_switch_p2_action:
  assumes "precision_level a = 2" "\<not> isVisualize a" "p2_infer_action env img = Inr result"
  shows "published (events (image_switch env img a)) =
     (if data_size result \<le> length (classIndices result)
         \<and> data_size result \<le> length (scores result)
         \<and> data_size result \<le> length (bboxes result)
      then [P2_pub
              \<lparr>msg_class_indices = map ((!) (classIndices result)) [0..<data_size result],
               msg_scores = map ((!) (scores result)) [0..<data_size result],
               msg_bboxes = map (\<lambda>i. make_roi (bboxes result ! i)) [0..<data_size result],
               msg_masks = []\<rparr>]
      else [])"
  using assms
  by (simp add: image_switch_def p2_loop_eq upt_in_range ball_conj_distrib
      empty_detection_msg_def returns_def throws_def)

lemma image_switch_p3_action:
  assumes "precision_level a = 3" "\<not> isVisualize a" "p3_infer_action env img = Inr result"
  shows "published (events (image_switch env img a)) =
     (if data_size result \<le> length (classIndices result)
         \<and> data_size result \<le> length (scores result)
         \<and> data_size result \<le> length (bboxes result)
         \<and> data_size result \<le> length (masks result)
      then [P3_pub
              \<lparr>msg_class_indices = map ((!) (classIndices result)) [0..<data_size result],
               msg_scores = map ((!) (scores result)) [0..<data_size result],
               msg_bboxes = map (\<lambda>i. make_roi (bboxes result ! i)) [0..<data_size result],
               msg_masks = map (\<lambda>i. toImageMsg env ''32FC1'' (masks result ! i))
                             [0..<data_size result]\<rparr>]
      else [])"
  using assms
  by (simp add: image_switch_def p3_loop_eq upt_in_range ball_conj_distrib
      empty_detection_msg_def returns_def throws_def)

lemma uint32_exact: "0 \<le> k \<Longrightarrow> k < 2 ^ 32 \<Longrightarrow> uint (word_of_int k :: uint32) = k"
  by (simp add: uint_word_of_int_eq take_bit_int_eq_self)

text \<open>
  C5: a tier-2 or tier-3 frame in non-visualize mode that passes the guards, for which the
  engine answers with \<open>result\<close> (its vectors holding \<open>data_size\<close> entries), publishes exactly
  one detection record, on the channel of its tier, with one box per detection; the box of
  detection \<open>i\<close>, given by the engine as \<open>(x1, y1, x2, y2)\<close>, is \<open>(x_offset = x1,
  y_offset = y1, width = x2 - x1, height = y2 - y1)\<close>, each stored in its unsigned 32-bit
  field; for a box with \<open>0 \<le> x1 \<le> x2\<close> and \<open>0 \<le> y1 \<le> y2\<close> below \<open>2^32\<close> the fields read back
  as exactly these numbers. The witness runs tier 2 and tier 3 on two detections, the
  first of them the spec's example: \<open>(10, 20, 50, 80)\<close> gives \<open>(10, 20, 40, 60)\<close>.
\<close>

theorem box_encoding:
  assumes "height msg \<noteq> 0"
    and "toCvCopy env msg ''bgr8'' = Inr img"
    and "thrown (init_block env img a) = None"
    and "\<not> isVisualize a"
    and "(precision_level a = 2 \<and> p2_infer_action env img = Inr result
            \<and> data_size result \<le> length (classIndices result)
            \<and> data_size result \<le> length (scores result)
            \<and> data_size result \<le> length (bboxes result))
         \<or> (precision_level a = 3 \<and> p3_infer_action env img = Inr result
            \<and> data_size result \<le> length (classIndices result)
            \<and> data_size result \<le> length (scores result)
            \<and> data_size result \<le> length (bboxes result)
            \<and> data_size result \<le> length (masks result))"
    and "i < data_size result"
    and "bboxes result ! i = (x1, y1, x2, y2)"
  shows "\<exists>m. published (events (image_callback env msg a)) =
               [if precision_level a = 2 then P2_pub m else P3_pub m]
       \<and> length (msg_bboxes m) = data_size result
       \<and> msg_bboxes m ! i =
           \<lparr>x_offset = word_of_int x1, y_offset = word_of_int y1,
            roi_width = word_of_int (x2 - x1), roi_height = word_of_int (y2 - y1),
            do_rectify = False\<rparr>
       \<and> (0 \<le> x1 \<and> x1 \<le> x2 \<and> x2 < 2 ^ 32 \<and> 0 \<le> y1 \<and> y1 \<le> y2 \<and> y2 < 2 ^ 32 \<longrightarrow>
            uint (x_offset (msg_bboxes m ! i)) = x1
          \<and> uint (y_offset (msg_bboxes m ! i)) = y1
          \<and> uint (roi_width (msg_bboxes m ! i)) = x2 - x1
          \<and> uint (roi_height (msg_bboxes m ! i)) = y2 - y1)"
proof -
  let ?box = "\<lparr>x_offset = word_of_int x1, y_offset = word_of_int y1,
            roi_width = word_of_int (x2 - x1), roi_height = word_of_int (y2 - y1),
            do_rectify = False\<rparr>"
  have roi: "make_roi (bboxes result ! i) = ?box"
    by (simp add: assms(7) make_roi_def)
  have exact: "uint (x_offset ?box) = x1 \<and> uint (y_offset ?box) = y1
      \<and> uint (roi_width ?box) = x2 - x1 \<and> uint (roi_height ?box) = y2 - y1"
    if "0 \<le> x1 \<and> x1 \<le> x2 \<and> x2 < 2 ^ 32 \<and> 0 \<le> y1 \<and> y1 \<le> y2 \<and> y2 < 2 ^ 32"
    using that uint32_exact[of x1] uint32_exact[of y1] uint32_exact[of "x2 - x1"]
      uint32_exact[of "y2 - y1"]
    by (simp del: of_int_diff)
  have pub: "published (events (image_callback env msg a)) =
      published (events (image_switch env img a))"
    by (simp add: image_callback_published[OF assms(1,2)] assms(3))
  from assms(5) show ?thesis
  proof
    assume h: "precision_level a = 2 \<and> p2_infer_action env img = Inr result
            \<and> data_size result \<le> length (classIndices result)
            \<and> data_size result \<le> length (scores result)
            \<and> data_size result \<le> length (bboxes result)"
    let ?m = "\<lparr>msg_class_indices = map ((!) (classIndices result)) [0..<data_size result],
               msg_scores = map ((!) (scores result)) [0..<data_size result],
               msg_bboxes = map (\<lambda>i. make_roi (bboxes result ! i)) [0..<data_size result],
               msg_masks = []\<rparr>"
    have p: "published (events (image_callback env msg a)) = [P2_pub ?m]"
      using h assms(4) by (simp add: pub image_switch_p2_action)
    have l: "length (msg_bboxes ?m) = data_size result" by simp
    have b: "msg_bboxes ?m ! i = ?box" using assms(6) by (simp add: roi)
    show ?thesis
      apply (rule exI[of _ ?m])
      unfolding b
      using h p l exact by simp
  next
    assume h: "precision_level a = 3 \<and> p3_infer_action env img = Inr result
            \<and> data_size result \<le> length (classIndices result)
            \<and> data_size result \<le> length (scores result)
            \<and> data_size result \<le> length (bboxes result)
            \<and> data_size result \<le> length (masks result)"
    let ?m = "\<lparr>msg_class_indices = map ((!) (classIndices result)) [0..<data_size result],
               msg_scores = map ((!) (scores result)) [0..<data_size result],
               msg_bboxes = map (\<lambda>i. make_roi (bboxes result ! i)) [0..<data_size result],
               msg_masks = map (\<lambda>i. toImageMsg env ''32FC1'' (masks result ! i))
                             [0..<data_size result]\<rparr>"
    have p: "published (events (image_callback env msg a)) = [P3_pub ?m]"
      using h assms(4) by (simp add: pub image_switch_p3_action)
    have l: "length (msg_bboxes ?m) = data_size result" by simp
    have b: "msg_bboxes ?m ! i = ?box" using assms(6) by (simp add: roi)
    show ?thesis
      apply (rule exI[of _ ?m])
      unfolding b
      using h p l exact by simp
  qed
qed

theorem box_encoding_witness:
  "bboxes demo_detections ! 0 = (10, 20, 50, 80)
   \<and> bboxes demo_detections ! 1 = (0, 5, 640, 480)
   \<and> (case published (events (image_callback pair_env (frame 640 480)
              (locked_agent 2 False 0))) of
        [P2_pub m] \<Rightarrow>
          length (msg_bboxes m) = 2
          \<and> uint (x_offset (msg_bboxes m ! 0)) = 10 \<and> uint (y_offset (msg_bboxes m ! 0)) = 20
          \<and> uint (roi_width (msg_bboxes m ! 0)) = 40
          \<and> uint (roi_height (msg_bboxes m ! 0)) = 60
      | _ \<Rightarrow> False)
   \<and> (case published (events (image_callback pair_env (frame 640 480)
              (locked_agent 3 False 0))) of
        [P3_pub m] \<Rightarrow>
          length (msg_bboxes m) = 2
          \<and> uint (x_offset (msg_bboxes m ! 1)) = 0 \<and> uint (y_offset (msg_bboxes m ! 1)) = 5
          \<and> uint (roi_width (msg_bboxes m ! 1)) = 640
          \<and> uint (roi_height (msg_bboxes m ! 1)) = 475
      | _ \<Rightarrow> False)"
proof -
  let ?img = "\<lparr>cols = 640, rows = 480, pixels = []\<rparr>"
  have h1: "height (frame 640 480) \<noteq> 0" by (simp add: frame_def)
  have h2: "toCvCopy pair_env (frame 640 480) ''bgr8'' = Inr ?img"
    by (simp add: pair_env_def demo_env_def frame_def)
  have h3: "thrown (init_block pair_env ?img (locked_agent t False 0)) = None" for t
    by (simp add: eval_defs)
  have h4: "\<not> isVisualize (locked_agent t False 0)" for t
    by (simp add: locked_agent_def isVisualize_def)
  have size: "data_size demo_detections = 2" by (simp add: demo_detections_def)
  have t2: "(precision_level (locked_agent 2 False 0) = 2
            \<and> p2_infer_action pair_env ?img = Inr demo_detections
            \<and> data_size demo_detections \<le> length (classIndices demo_detections)
            \<and> data_size demo_detections \<le> length (scores demo_detections)
            \<and> data_size demo_detections \<le> length (bboxes demo_detections))
         \<or> (precision_level (locked_agent 2 False 0) = 3
            \<and> p3_infer_action pair_env ?img = Inr demo_detections
            \<and> data_size demo_detections \<le> length (classIndices demo_detections)
            \<and> data_size demo_detections \<le> length (scores demo_detections)
            \<and> data_size demo_detections \<le> length (bboxes demo_detections)
            \<and> data_size demo_detections \<le> length (masks demo_detections))"
    by (simp add: locked_agent_def pair_env_def demo_detections_def)
  have t3: "(precision_level (locked_agent 3 False 0) = 2
            \<and> p2_infer_action pair_env ?img = Inr demo_detections
            \<and> data_size demo_detections \<le> length (classIndices demo_detections)
            \<and> data_size demo_detections \<le> length (scores demo_detections)
            \<and> data_size demo_detections \<le> length (bboxes demo_detections))
         \<or> (precision_level (locked_agent 3 False 0) = 3
            \<and> p3_infer_action pair_env ?img = Inr demo_detections
            \<and> data_size demo_detections \<le> length (classIndices demo_detections)
            \<and> data_size demo_detections \<le> length (scores demo_detections)
            \<and> data_size demo_detections \<le> length (bboxes demo_detections)
            \<and> data_size demo_detections \<le> length (masks demo_detections))"
    by (simp add: locked_agent_def pair_env_def demo_detections_def)
  have i0: "0 < data_size demo_detections" and i1: "1 < data_size demo_detections"
    by (simp_all add: size)
  have b0: "bboxes demo_detections ! 0 = (10, 20, 50, 80)"
    and b1: "bboxes demo_detections ! 1 = (0, 5, 640, 480)"
    by (simp_all add: demo_detections_def)
  have p2: "precision_level (locked_agent 2 False 0) = 2"
    and p3: "precision_level (locked_agent 3 False 0) \<noteq> 2"
    by (simp_all add: locked_agent_def)
  from box_encoding[OF h1 h2 h3 h4 t2 i0 b0] p2 size
  have w2: "case published (events (image_callback pair_env (frame 640 480)
              (locked_agent 2 False 0))) of
        [P2_pub m] \<Rightarrow>
          length (msg_bboxes m) = 2
          \<and> uint (x_offset (msg_bboxes m ! 0)) = 10 \<and> uint (y_offset (msg_bboxes m ! 0)) = 20
          \<and> uint (roi_width (msg_bboxes m ! 0)) = 40
          \<and> uint (roi_height (msg_bboxes m ! 0)) = 60
      | _ \<Rightarrow> False"
    by auto
  from box_encoding[OF h1 h2 h3 h4 t3 i1 b1] p3 size
  have w3: "case published (events (image_callback pair_env (frame 640 480)
              (locked_agent 3 False 0))) of
        [P3_pub m] \<Rightarrow>
          length (msg_bboxes m) = 2
          \<and> uint (x_offset (msg_bboxes m ! 1)) = 0 \<and> uint (y_offset (msg_bboxes m ! 1)) = 5
          \<and> uint (roi_width (msg_bboxes m ! 1)) = 640
          \<and> uint (roi_height (msg_bboxes m ! 1)) = 475
      | _ \<Rightarrow> False"
    by auto
  from b0 b1 w2 w3 show ?thesis by blast
qed

text \<open>
  C6: for a tier-3 invocation in non-visualize mode that passes the guards, with \<open>result\<close>
  the engine's answer, every published record is a tier-3 record whose masks, boxes, class
  indices and scores all have length \<open>data_size result\<close>; exactly one record is published
  when the engine's vectors hold at least \<open>data_size\<close> entries each, none otherwise.
\<close>

theorem tier3_parallel_arrays:
  assumes "height msg \<noteq> 0"
    and "toCvCopy env msg ''bgr8'' = Inr img"
    and "thrown (init_block env img a) = None"
    and "precision_level a = 3"
    and "\<not> isVisualize a"
    and "p3_infer_action env img = Inr result"
  shows "(\<forall>p \<in> set (published (events (image_callback env msg a))).
            \<exists>m. p = P3_pub m
              \<and> length (msg_masks m) = data_size result
              \<and> length (msg_bboxes m) = data_size result
              \<and> length (msg_class_indices m) = data_size result
              \<and> length (msg_scores m) = data_size result)
       \<and> length (published (events (image_callback env msg a))) =
           (if data_size result \<le> length (classIndices result)
               \<and> data_size result \<le> length (scores result)
               \<and> data_size result \<le> length (bboxes result)
               \<and> data_size result \<le> length (masks result)
            then 1 else 0)"
  using assms(3-6)
  by (simp add: image_callback_published[OF assms(1,2)] image_switch_def p3_loop_eq
      empty_detection_msg_def returns_def throws_def ball_conj_distrib upt_in_range)

theorem tier3_parallel_arrays_witness:
  "published (events (image_callback demo_env (frame 640 480) (locked_agent 3 False 0))) =
     [P3_pub \<lparr>msg_class_indices = [7], msg_scores = [1065353216],
        msg_bboxes = [\<lparr>x_offset = 10, y_offset = 20, roi_width = 40, roi_height = 60,
                       do_rectify = False\<rparr>],
        msg_masks = [\<lparr>height = 1, width = 2, encoding = ''32FC1'', data = [0, 255]\<rparr>]\<rparr>]
   \<and> data_size demo_detection = 1
   \<and> length (published (events (image_callback demo_env (frame 640 480)
        (locked_agent 3 False 0)))) = 1"
proof -
  let ?img = "\<lparr>cols = 640, rows = 480, pixels = []\<rparr>"
  let ?a = "locked_agent 3 False 0"
  have h1: "height (frame 640 480) \<noteq> 0" by (simp add: frame_def)
  have h2: "toCvCopy demo_env (frame 640 480) ''bgr8'' = Inr ?img"
    by (simp add: demo_env_def frame_def)
  have h3: "thrown (init_block demo_env ?img ?a) = None" by (simp add: eval_defs)
  have h4: "precision_level ?a = 3" by (simp add: locked_agent_def)
  have h5: "\<not> isVisualize ?a" by (simp add: locked_agent_def isVisualize_def)
  have h6: "p3_infer_action demo_env ?img = Inr demo_detection" by (simp add: demo_env_def)
  have pub: "published (events (image_callback demo_env (frame 640 480) ?a)) =
     [P3_pub \<lparr>msg_class_indices = [7], msg_scores = [1065353216],
        msg_bboxes = [\<lparr>x_offset = 10, y_offset = 20, roi_width = 40, roi_height = 60,
                       do_rectify = False\<rparr>],
        msg_masks = [\<lparr>height = 1, width = 2, encoding = ''32FC1'', data = [0, 255]\<rparr>]\<rparr>]"
    by (simp add: eval_defs upt_rec)
  show ?thesis
    using tier3_parallel_arrays[OF h1 h2 h3 h4 h5 h6] pub
    by (simp add: demo_detection_def)
qed

subsection \<open>Tier routing\<close>

lemma image_switch_tier1:
  assumes "precision_level a = 1"
  shows "published (events (image_switch env img a)) =
     (case p1_infer env img of
        Inl e \<Rightarrow> []
      | Inr names \<Rightarrow> [P1_pub \<lparr>object_names = names\<rparr>])"
  using assms by (simp add: image_switch_def returns_def throws_def split: sum.splits)

lemma image_switch_p2_visualize:
  assumes "precision_level a = 2" "isVisualize a"
  shows "published (events (image_switch env img a)) =
     (case p2_infer_visualize env img of
        Inl e \<Rightarrow> []
      | Inr resultImg \<Rightarrow> [Visual_pub (toImageMsg env ''bgr8'' resultImg)])"
  using assms by (simp add: image_switch_def returns_def throws_def split: sum.splits)

lemma image_switch_p3_visualize:
  assumes "precision_level a = 3" "isVisualize a"
  shows "published (events (image_switch env img a)) =
     (case p3_infer_visualize env img of
        Inl e \<Rightarrow> []
      | Inr resultImg \<Rightarrow> [Visual_pub (toImageMsg env ''bgr8'' resultImg)])"
  using assms by (simp add: image_switch_def returns_def throws_def split: sum.splits)

lemma image_switch_p2_action_fails:
  assumes "precision_level a = 2" "\<not> isVisualize a" "p2_infer_action env img = Inl e"
  shows "published (events (image_switch env img a)) = []"
  using assms by (simp add: image_switch_def throws_def)

lemma image_switch_p3_action_fails:
  assumes "precision_level a = 3" "\<not> isVisualize a" "p3_infer_action env img = Inl e"
  shows "published (events (image_switch env img a)) = []"
  using assms by (simp add: image_switch_def throws_def)

text \<open>
  C3: a single-stream frame that passes the guards (height other than 0, the image
  decodes, the initialization block does not throw) publishes as follows, and nothing
  else. With tier 1, whatever the visualize flag: the label-list record holding the
  engine's labels. With tier 2 or 3 and visualize set: the annotated image the engine
  returns, on the image channel. With tier 2 (tier 3) and visualize not set: one tier-2
  (tier-3) detection record, when the engine's vectors hold \<open>data_size\<close> entries. When the
  engine throws, nothing is published.
\<close>

theorem tier_routing:
  assumes "height msg \<noteq> 0"
    and "toCvCopy env msg ''bgr8'' = Inr img"
    and "thrown (init_block env img a) = None"
  shows "(precision_level a = 1 \<longrightarrow>
            published (events (image_callback env msg a)) =
              (case p1_infer env img of
                 Inl e \<Rightarrow> []
               | Inr names \<Rightarrow> [P1_pub \<lparr>object_names = names\<rparr>]))
       \<and> (precision_level a = 2 \<and> isVisualize a \<longrightarrow>
            published (events (image_callback env msg a)) =
              (case p2_infer_visualize env img of
                 Inl e \<Rightarrow> []
               | Inr resultImg \<Rightarrow> [Visual_pub (toImageMsg env ''bgr8'' resultImg)]))
       \<and> (precision_level a = 3 \<and> isVisualize a \<longrightarrow>
            published (events (image_callback env msg a)) =
              (case p3_infer_visualize env img of
                 Inl e \<Rightarrow> []
               | Inr resultImg \<Rightarrow> [Visual_pub (toImageMsg env ''bgr8'' resultImg)]))
       \<and> (precision_level a = 2 \<and> \<not> isVisualize a \<longrightarrow>
            (case p2_infer_action env img of
               Inl e \<Rightarrow> published (events (image_callback env msg a)) = []
             | Inr result \<Rightarrow>
                 if data_size result \<le> length (classIndices result)
                    \<and> data_size result \<le> length (scores result)
                    \<and> data_size result \<le> length (bboxes result)
                 then \<exists>m. published (events (image_callback env msg a)) = [P2_pub m]
                 else published (events (image_callback env msg a)) = []))
       \<and> (precision_level a = 3 \<and> \<not> isVisualize a \<longrightarrow>
            (case p3_infer_action env img of
               Inl e \<Rightarrow> published (events (image_callback env msg a)) = []
             | Inr result \<Rightarrow>
                 if data_size result \<le> length (classIndices result)
                    \<and> data_size result \<le> length (scores result)
                    \<and> data_size result \<le> length (bboxes result)
                    \<and> data_size result \<le> length (masks result)
                 then \<exists>m. published (events (image_callback env msg a)) = [P3_pub m]
                 else published (events (image_callback env msg a)) = []))"
proof -
  have pub: "published (events (image_callback env msg a)) =
      published (events (image_switch env img a))"
    by (simp add: image_callback_published[OF assms(1,2)] assms(3))
  have t1: "precision_level a = 1 \<longrightarrow>
            published (events (image_callback env msg a)) =
              (case p1_infer env img of
                 Inl e \<Rightarrow> []
               | Inr names \<Rightarrow> [P1_pub \<lparr>object_names = names\<rparr>])"
    by (simp add: pub image_switch_tier1)
  have v2: "precision_level a = 2 \<and> isVisualize a \<longrightarrow>
            published (events (image_callback env msg a)) =
              (case p2_infer_visualize env img of
                 Inl e \<Rightarrow> []
               | Inr resultImg \<Rightarrow> [Visual_pub (toImageMsg env ''bgr8'' resultImg)])"
    by (simp add: pub image_switch_p2_visualize)
  have v3: "precision_level a = 3 \<and> isVisualize a \<longrightarrow>
            published (events (image_callback env msg a)) =
              (case p3_infer_visualize env img of
                 Inl e \<Rightarrow> []
               | Inr resultImg \<Rightarrow> [Visual_pub (toImageMsg env ''bgr8'' resultImg)])"
    by (simp add: pub image_switch_p3_visualize)
  have s2: "precision_level a = 2 \<and> \<not> isVisualize a \<longrightarrow>
            (case p2_infer_action env img of
               Inl e \<Rightarrow> published (events (image_callback env msg a)) = []
             | Inr result \<Rightarrow>
                 if data_size result \<le> length (classIndices result)
                    \<and> data_size result \<le> length (scores result)
                    \<and> data_size result \<le> length (bboxes result)
                 then \<exists>m. published (events (image_callback env msg a)) = [P2_pub m]
                 else published (events (image_callback env msg a)) = [])"
    by (simp add: pub image_switch_p2_action image_switch_p2_action_fails split: sum.splits)
  have s3: "precision_level a = 3 \<and> \<not> isVisualize a \<longrightarrow>
            (case p3_infer_action env img of
               Inl e \<Rightarrow> published (events (image_callback env msg a)) = []
             | Inr result \<Rightarrow>
                 if data_size result \<le> length (classIndices result)
                    \<and> data_size result \<le> length (scores result)
                    \<and> data_size result \<le> length (bboxes result)
                    \<and> data_size result \<le> length (masks result)
                 then \<exists>m. published (events (image_callback env msg a)) = [P3_pub m]
                 else published (events (image_callback env msg a)) = [])"
    by (simp add: pub image_switch_p3_action image_switch_p3_action_fails split: sum.splits)
  from t1 v2 v3 s2 s3 show ?thesis by blast
qed

theorem tier_routing_witness:
  "published (events (image_callback demo_env (frame 640 480) (fresh_agent 1 False 0))) =
     [P1_pub \<lparr>object_names = [''cup'']\<rparr>]
   \<and> published (events (image_callback demo_env (frame 640 480) (fresh_agent 1 True 0))) =
     [P1_pub \<lparr>object_names = [''cup'']\<rparr>]
   \<and> published (events (image_callback demo_env (frame 640 480) (fresh_agent 2 True 0))) =
     [Visual_pub \<lparr>height = 480, width = 640, encoding = ''bgr8'', data = []\<rparr>]
   \<and> published (events (image_callback demo_env (frame 640 480) (fresh_agent 3 True 0))) =
     [Visual_pub \<lparr>height = 480, width = 640, encoding = ''bgr8'', data = []\<rparr>]
   \<and> map channel_of (published (events (image_callback demo_env (frame 640 480)
        (fresh_agent 2 False 0)))) = [Ch_p2]
   \<and> map channel_of (published (events (image_callback demo_env (frame 640 480)
        (fresh_agent 3 False 0)))) = [Ch_p3]
   \<and> published (events (image_callback failing_env (frame 640 480) (fresh_agent 1 True 0))) = []"
proof -
  let ?img = "\<lparr>cols = 640, rows = 480, pixels = []\<rparr>"
  have h1: "height (frame 640 480) \<noteq> 0" by (simp add: frame_def)
  have h2: "toCvCopy demo_env (frame 640 480) ''bgr8'' = Inr ?img"
    "toCvCopy failing_env (frame 640 480) ''bgr8'' = Inr ?img"
    by (simp_all add: failing_env_def demo_env_def frame_def)
  have h3: "thrown (init_block demo_env ?img (fresh_agent t v 0)) = None"
    "thrown (init_block failing_env ?img (fresh_agent t v 0)) = None" for t v
    by (simp_all add: eval_defs)
  have cfg: "precision_level (fresh_agent t v 0) = t" "isVisualize (fresh_agent t v 0) = v"
    for t v
    by (simp_all add: fresh_agent_def isVisualize_def)
  have eng: "p1_infer demo_env ?img = Inr [''cup'']"
    "p1_infer failing_env ?img = Inl (Foreign ''session'')"
    "p2_infer_visualize demo_env ?img = Inr ?img"
    "p3_infer_visualize demo_env ?img = Inr ?img"
    "p2_infer_action demo_env ?img = Inr demo_detection"
    "p3_infer_action demo_env ?img = Inr demo_detection"
    "toImageMsg demo_env ''bgr8'' ?img =
       \<lparr>height = 480, width = 640, encoding = ''bgr8'', data = []\<rparr>"
    by (simp_all add: failing_env_def demo_env_def)
  have wf: "data_size demo_detection \<le> length (classIndices demo_detection)"
    "data_size demo_detection \<le> length (scores demo_detection)"
    "data_size demo_detection \<le> length (bboxes demo_detection)"
    "data_size demo_detection \<le> length (masks demo_detection)"
    by (simp_all add: demo_detection_def)
  have a: "published (events (image_callback demo_env (frame 640 480)
      (fresh_agent 1 False 0))) = [P1_pub \<lparr>object_names = [''cup'']\<rparr>]"
    using tier_routing[OF h1 h2(1) h3(1), of 1 False] by (simp add: cfg eng)
  have b: "published (events (image_callback demo_env (frame 640 480)
      (fresh_agent 1 True 0))) = [P1_pub \<lparr>object_names = [''cup'']\<rparr>]"
    using tier_routing[OF h1 h2(1) h3(1), of 1 True] by (simp add: cfg eng)
  have c: "published (events (image_callback demo_env (frame 640 480)
      (fresh_agent 2 True 0))) =
      [Visual_pub \<lparr>height = 480, width = 640, encoding = ''bgr8'', data = []\<rparr>]"
    using tier_routing[OF h1 h2(1) h3(1), of 2 True] by (simp add: cfg eng)
  have d: "published (events (image_callback demo_env (frame 640 480)
      (fresh_agent 3 True 0))) =
      [Visual_pub \<lparr>height = 480, width = 640, encoding = ''bgr8'', data = []\<rparr>]"
    using tier_routing[OF h1 h2(1) h3(1), of 3 True] by (simp add: cfg eng)
  have e: "map channel_of (published (events (image_callback demo_env (frame 640 480)
        (fresh_agent 2 False 0)))) = [Ch_p2]"
    using tier_routing[OF h1 h2(1) h3(1), of 2 False] by (auto simp: cfg eng wf)
  have f: "map channel_of (published (events (image_callback demo_env (frame 640 480)
        (fresh_agent 3 False 0)))) = [Ch_p3]"
    using tier_routing[OF h1 h2(1) h3(1), of 3 False] by (auto simp: cfg eng wf)
  have g: "published (events (image_callback failing_env (frame 640 480)
      (fresh_agent 1 True 0))) = []"
    using tier_routing[OF h1 h2(2) h3(2), of 1 True] by (simp add: cfg eng)
  from a b c d e f g show ?thesis by blast
qed

subsection \<open>A tier outside 1, 2, 3\<close>

text \<open>
  C10: with a precision tier outside \<open>{1, 2, 3}\<close>, a single-stream frame of height other
  than 0 that decodes goes through the initialization block (initialization, or the
  dimension check) and nothing else: no inference operation is called, nothing is
  published, the agent and the exception are those of the initialization block, and a
  normal return logs only the elapsed time.
\<close>

theorem unknown_tier_does_nothing:
  assumes "height msg \<noteq> 0"
    and "toCvCopy env msg ''bgr8'' = Inr img"
    and "precision_level a \<noteq> 1" and "precision_level a \<noteq> 2" and "precision_level a \<noteq> 3"
  shows "calls (events (image_callback env msg a)) = []
       \<and> published (events (image_callback env msg a)) = []
       \<and> agent (image_callback env msg a) = agent (init_block env img a)
       \<and> thrown (image_callback env msg a) = thrown (init_block env img a)
       \<and> events (image_callback env msg a) =
           events (init_block env img a) @
           (if thrown (init_block env img a) = None then [Info (elapsedTime env)] else [])"
  using assms(3-5)
  by (simp add: published_append calls_append init_block_quiet
      image_callback_agent[OF assms(1,2)] image_callback_thrown[OF assms(1,2)]
      image_callback_events[OF assms(1,2)]
      image_switch_def returns_def split: option.splits)

theorem unknown_tier_does_nothing_witness:
  "image_callback demo_env (frame 640 480) (fresh_agent 7 False 0) =
     \<lparr>agent = locked_agent 7 False 0, events = [InitEngine 640 480, Info 42], thrown = None\<rparr>
   \<and> image_callback demo_env (frame 320 240) (locked_agent 0 True 0) =
     \<lparr>agent = locked_agent 0 True 0, events = [],
      thrown = Some (RuntimeError ''Input camera changed. Please restart.'')\<rparr>"
proof -
  have h1: "height (frame 640 480) \<noteq> 0" "height (frame 320 240) \<noteq> 0"
    by (simp_all add: frame_def)
  have h2: "toCvCopy demo_env (frame 640 480) ''bgr8'' = Inr \<lparr>cols = 640, rows = 480, pixels = []\<rparr>"
    "toCvCopy demo_env (frame 320 240) ''bgr8'' = Inr \<lparr>cols = 320, rows = 240, pixels = []\<rparr>"
    by (simp_all add: demo_env_def frame_def)
  have h3: "precision_level (fresh_agent 7 False 0) \<noteq> 1" "precision_level (fresh_agent 7 False 0) \<noteq> 2"
    "precision_level (fresh_agent 7 False 0) \<noteq> 3"
    "precision_level (locked_agent 0 True 0) \<noteq> 1" "precision_level (locked_agent 0 True 0) \<noteq> 2"
    "precision_level (locked_agent 0 True 0) \<noteq> 3"
    by (simp_all add: fresh_agent_def locked_agent_def)
  have ib: "init_block demo_env \<lparr>cols = 640, rows = 480, pixels = []\<rparr> (fresh_agent 7 False 0) =
      \<lparr>agent = locked_agent 7 False 0, events = [InitEngine 640 480], thrown = None\<rparr>"
    "init_block demo_env \<lparr>cols = 320, rows = 240, pixels = []\<rparr> (locked_agent 0 True 0) =
      \<lparr>agent = locked_agent 0 True 0, events = [],
       thrown = Some (RuntimeError ''Input camera changed. Please restart.'')\<rparr>"
    by (simp_all add: eval_defs)
  have el: "elapsedTime demo_env = 42" by (simp add: eval_defs)
  show ?thesis
    using unknown_tier_does_nothing[OF h1(1) h2(1) h3(1,2,3)]
      unknown_tier_does_nothing[OF h1(2) h2(2) h3(4,5,6)]
    by (simp add: ib el outcome.equality)
qed

subsection \<open>The synchronized route\<close>

lemma localize_loop_eq:
  "localize_loop result is m =
     (if \<forall>i \<in> set is. i < length (objects result)
      then Inr (m\<lparr>msg_objects := msg_objects m @
                    map (\<lambda>i. \<lparr>msg_name = name (objects result ! i),
                               msg_pos = pos (objects result ! i),
                               msg_roi = roi (objects result ! i),
                               msg_breadth = breadth (objects result ! i),
                               msg_length = obj_length (objects result ! i),
                               msg_height = obj_height (objects result ! i)\<rparr>) is,
                  roi_array := roi_array m @ map (\<lambda>i. roi (objects result ! i)) is\<rparr>)
      else Inl OutOfRange)"
  by (induction "is" arbitrary: m) auto

lemma map_nth_upt_take:
  "n \<le> length xs \<Longrightarrow> map (\<lambda>i. f (xs ! i)) [0..<n] = map f (take n xs)"
  by (rule nth_equalityI) simp_all

lemma localize_body_cong:
  assumes "isVisualize a' = isVisualize a"
  shows "events (localize_body env img d dm cam a') = events (localize_body env img d dm cam a)"
    and "thrown (localize_body env img d dm cam a') = thrown (localize_body env img d dm cam a)"
  using assms
  by (simp_all add: localize_body_def returns_def throws_def split: sum.splits)

lemma localize_body_agent: "agent (localize_body env img d dm cam a) = a"
  by (simp add: localize_body_def returns_def throws_def split: sum.splits)

lemma localize_callback_decoded:
  assumes "height msg \<noteq> 0" "toCvCopy env msg ''bgr8'' = Inr img"
    "toCvCopy env depth_msg ''16UC1'' = Inr depth_img"
  shows "localize_callback env msg depth_msg cam a =
           and_then (init_block env img a) (\<lambda>a1.
             localize_body env img depth_img depth_msg cam a1)"
  using assms by (simp add: localize_callback_def)

lemma localize_callback_events:
  assumes "height msg \<noteq> 0" "toCvCopy env msg ''bgr8'' = Inr img"
    "toCvCopy env depth_msg ''16UC1'' = Inr depth_img"
  shows "events (localize_callback env msg depth_msg cam a) =
     events (init_block env img a) @
     (case thrown (init_block env img a) of
        Some e \<Rightarrow> []
      | None \<Rightarrow> events (localize_body env img depth_img depth_msg cam a))"
  using localize_body_cong[of "agent (init_block env img a)" a env img depth_img depth_msg cam]
  by (simp add: localize_callback_decoded[OF assms] events_and_then init_block_config
      split: option.splits)


lemma localize_callback_agent:
  assumes "height msg \<noteq> 0" "toCvCopy env msg ''bgr8'' = Inr img"
    "toCvCopy env depth_msg ''16UC1'' = Inr depth_img"
  shows "agent (localize_callback env msg depth_msg cam a) = agent (init_block env img a)"
  by (simp add: localize_callback_decoded[OF assms] agent_and_then localize_body_agent
      split: option.splits)

lemma localize_body_calls:
  "calls (events (localize_body env img d dm cam a)) =
     [if isVisualize a then Call_p3_localize_visualize img d cam
      else Call_p3_localize_action img d cam]"
  by (simp add: localize_body_def returns_def throws_def split: sum.splits)

lemma localize_body_published:
  assumes "\<not> isVisualize a" "p3_localize_action env img d cam = Inr result"
    "loc_data_size result \<le> length (objects result)"
  shows "published (events (localize_body env img d dm cam a)) =
     [Localize_pub
        \<lparr>frame_width_out = cols img, frame_height_out = rows img,
         depth_image = dm, camera_info = cam,
         num_objects = loc_data_size result,
         msg_objects =
           map (\<lambda>ob. \<lparr>msg_name = name ob, msg_pos = pos ob, msg_roi = roi ob,
                       msg_breadth = breadth ob, msg_length = obj_length ob,
                       msg_height = obj_height ob\<rparr>)
             (take (loc_data_size result) (objects result)),
         roi_array = map roi (take (loc_data_size result) (objects result)),
         process_time = elapsedTime env\<rparr>]"
  using assms
  by (simp add: localize_body_def localize_loop_eq upt_in_range returns_def
      map_nth_upt_take[of _ _ roi]
      map_nth_upt_take[of _ _ "\<lambda>ob. \<lparr>msg_name = name ob, msg_pos = pos ob, msg_roi = roi ob,
                       msg_breadth = breadth ob, msg_length = obj_length ob,
                       msg_height = obj_height ob\<rparr>"])

lemma elapsedTime_clocks:
  "elapsedTime env =
     sgn (clock_end env - clock_begin env) * (\<bar>clock_end env - clock_begin env\<bar> div 1000000)"
  by (simp add: elapsedTime_def Let_def sgn_if abs_if)

text \<open>
  C7: for a synchronized tuple that passes the guards (height other than 0, both images
  decode, the initialization block does not throw), the one operation called is the
  localization operation of the third session, on the image, the depth image and the
  calibration record; the precision tier plays no part. In non-visualize mode, when the
  engine answers with \<open>result\<close> (holding at least \<open>data_size\<close> objects), exactly one
  localization record is published: frame width and height, the depth message, the
  calibration record, the object count, one object (name, position, box, breadth, length,
  height) and one box per localized object, and the elapsed time: the whole milliseconds
  between the two readings of the clock (taken in nanoseconds), rounded towards zero.
\<close>

theorem localization_dispatch:
  assumes "height msg \<noteq> 0"
    and "toCvCopy env msg ''bgr8'' = Inr img"
    and "toCvCopy env depth_msg ''16UC1'' = Inr depth_img"
    and "thrown (init_block env img a) = None"
  shows "calls (events (localize_callback env msg depth_msg cam a)) =
           [if isVisualize a then Call_p3_localize_visualize img depth_img cam
            else Call_p3_localize_action img depth_img cam]
       \<and> (\<not> isVisualize a \<and> p3_localize_action env img depth_img cam = Inr result
            \<and> loc_data_size result \<le> length (objects result) \<longrightarrow>
          published (events (localize_callback env msg depth_msg cam a)) =
            [Localize_pub
               \<lparr>frame_width_out = cols img, frame_height_out = rows img,
                depth_image = depth_msg, camera_info = cam,
                num_objects = loc_data_size result,
                msg_objects =
                  map (\<lambda>ob. \<lparr>msg_name = name ob, msg_pos = pos ob, msg_roi = roi ob,
                              msg_breadth = breadth ob, msg_length = obj_length ob,
                              msg_height = obj_height ob\<rparr>)
                    (take (loc_data_size result) (objects result)),
                roi_array = map roi (take (loc_data_size result) (objects result)),
                process_time =
                  sgn (clock_end env - clock_begin env)
                    * (\<bar>clock_end env - clock_begin env\<bar> div 1000000)\<rparr>])"
  using assms(4)
  by (simp add: localize_callback_events[OF assms(1-3)] calls_append published_append
      init_block_quiet localize_body_calls localize_body_published
      elapsedTime_clocks[symmetric])

theorem localization_dispatch_witness:
  "clock_begin late_env = 1500000 \<and> clock_end late_env = 43999999
   \<and> calls (events (localize_callback late_env (frame 640 480) (frame 640 480) demo_cam
      (fresh_agent 1 False 3))) =
     [Call_p3_localize_action \<lparr>cols = 640, rows = 480, pixels = []\<rparr>
        \<lparr>cols = 640, rows = 480, pixels = []\<rparr> demo_cam]
   \<and> published (events (localize_callback late_env (frame 640 480) (frame 640 480) demo_cam
      (fresh_agent 1 False 3))) =
     [Localize_pub
        \<lparr>frame_width_out = 640, frame_height_out = 480,
         depth_image = frame 640 480, camera_info = demo_cam, num_objects = 1,
         msg_objects =
           [\<lparr>msg_name = ''cup'', msg_pos = (1, 2, 3),
             msg_roi = \<lparr>x_offset = 10, y_offset = 20, roi_width = 40, roi_height = 60,
                        do_rectify = False\<rparr>,
             msg_breadth = 4, msg_length = 5, msg_height = 6\<rparr>],
         roi_array = [\<lparr>x_offset = 10, y_offset = 20, roi_width = 40, roi_height = 60,
                        do_rectify = False\<rparr>],
         process_time = 42\<rparr>]"
proof -
  let ?img = "\<lparr>cols = 640, rows = 480, pixels = []\<rparr>"
  let ?a = "fresh_agent 1 False 3"
  have h1: "height (frame 640 480) \<noteq> 0" by (simp add: frame_def)
  have h2: "toCvCopy late_env (frame 640 480) ''bgr8'' = Inr ?img"
    by (simp add: late_env_def demo_env_def frame_def)
  have h3: "toCvCopy late_env (frame 640 480) ''16UC1'' = Inr ?img"
    by (simp add: late_env_def demo_env_def frame_def)
  have h4: "thrown (init_block late_env ?img ?a) = None" by (simp add: eval_defs late_env_def)
  have v: "\<not> isVisualize ?a" by (simp add: fresh_agent_def isVisualize_def)
  have inf: "p3_localize_action late_env ?img ?img demo_cam = Inr demo_localization"
    by (simp add: late_env_def demo_env_def)
  have wf: "loc_data_size demo_localization \<le> length (objects demo_localization)"
    by (simp add: demo_localization_def)
  have clocks: "clock_begin late_env = 1500000" "clock_end late_env = 43999999"
    by (simp_all add: late_env_def demo_env_def)
  show ?thesis
    using localization_dispatch[OF h1 h2 h3 h4, of demo_cam demo_localization] v inf wf
    by (simp add: clocks demo_localization_def demo_object_def)
qed

subsection \<open>Failures of the engine\<close>

lemma calls_mem: "c \<in> set (calls es) \<longleftrightarrow> Infer c \<in> set es"
  by (induction es rule: calls.induct) auto







subsection \<open>Initialization over a run\<close>

lemma init_block_locked:
  assumes "isInit a"
  shows "agent (init_block env img a) = a"
    and "constructions (events (init_block env img a)) = 0"
  using assms by (simp_all add: init_block_def returns_def throws_def)

lemma init_block_first:
  assumes "\<not> isInit a"
    and "initORTSessionHandler env (setFrameDimension (cols img) (rows img) a) = None"
  shows "init_block env img a =
           returns (setInitBoolean True (setFrameDimension (cols img) (rows img) a))
             [InitEngine (cols img) (rows img)]"
  using assms by (simp add: init_block_def Let_def)

lemma image_switch_constructions: "constructions (events (image_switch env img a)) = 0"
  by (simp add: image_switch_def returns_def throws_def split: sum.splits)

lemma localize_body_constructions:
  "constructions (events (localize_body env img d dm cam a)) = 0"
  by (simp add: localize_body_def returns_def throws_def split: sum.splits)

lemma image_callback_locked:
  assumes "isInit a"
  shows "agent (image_callback env msg a) = a
       \<and> constructions (events (image_callback env msg a)) = 0"
proof (cases "height msg = 0")
  case True
  then show ?thesis by (simp add: image_callback_def returns_def)
next
  case nonempty: False
  show ?thesis
  proof (cases "toCvCopy env msg ''bgr8''")
    case (Inl e)
    with nonempty show ?thesis by (simp add: image_callback_def throws_def)
  next
    case (Inr img)
    show ?thesis
      by (simp add: image_callback_agent[OF nonempty Inr] image_callback_events[OF nonempty Inr]
          init_block_locked[OF assms] constructions_append image_switch_constructions
          split: option.splits)
  qed
qed

lemma localize_callback_locked:
  assumes "isInit a"
  shows "agent (localize_callback env msg depth_msg cam a) = a
       \<and> constructions (events (localize_callback env msg depth_msg cam a)) = 0"
proof (cases "height msg = 0")
  case True
  then show ?thesis by (simp add: localize_callback_def returns_def)
next
  case nonempty: False
  show ?thesis
  proof (cases "toCvCopy env msg ''bgr8''")
    case (Inl e)
    with nonempty show ?thesis by (simp add: localize_callback_def throws_def)
  next
    case img: (Inr img)
    show ?thesis
    proof (cases "toCvCopy env depth_msg ''16UC1''")
      case (Inl e)
      with nonempty img show ?thesis by (simp add: localize_callback_def throws_def)
    next
      case (Inr d)
      show ?thesis
        by (simp add: localize_callback_agent[OF nonempty img Inr]
            localize_callback_events[OF nonempty img Inr] init_block_locked[OF assms]
            constructions_append localize_body_constructions split: option.splits)
    qed
  qed
qed

lemma deliver_locked:
  "isInit a \<Longrightarrow> agent (deliver i a) = a \<and> constructions (events (deliver i a)) = 0"
  by (cases i) (simp_all add: image_callback_locked localize_callback_locked)

lemma run_locked:
  "isInit a \<Longrightarrow> fst (run is a) = a \<and> constructions (snd (run is a)) = 0"
proof (induction "is")
  case Nil
  then show ?case by simp
next
  case (Cons i "is")
  then show ?case
    by (simp add: deliver_locked Let_def split_beta constructions_append)
qed

lemma deliver_empty:
  "height (primary i) = 0 \<or> decoded i = None \<Longrightarrow>
     agent (deliver i a) = a \<and> constructions (events (deliver i a)) = 0"
  by (cases i)
    (auto simp: image_callback_def localize_callback_def returns_def throws_def
      split: sum.splits)

lemma run_empty_frames:
  "\<forall>i \<in> set is. height (primary i) = 0 \<or> decoded i = None \<Longrightarrow>
     fst (run is a) = a \<and> constructions (snd (run is a)) = 0"
proof (induction "is")
  case Nil
  then show ?case by simp
next
  case (Cons i "is")
  then show ?case
    by (simp add: deliver_empty Let_def split_beta constructions_append)
qed

lemma run_append:
  "run (xs @ ys) a =
     (fst (run ys (fst (run xs a))), snd (run xs a) @ snd (run ys (fst (run xs a))))"
  by (induction xs arbitrary: a) (simp_all add: Let_def split_beta)

lemma deliver_first:
  assumes "\<not> isInit a"
    and "height (primary i) \<noteq> 0"
    and "decoded i = Some img"
    and "initORTSessionHandler (env_of i) (setFrameDimension (cols img) (rows img) a) = None"
  shows "agent (deliver i a) = setInitBoolean True (setFrameDimension (cols img) (rows img) a)
       \<and> constructions (events (deliver i a)) = 1"
proof (cases i)
  case (On_image env msg)
  with assms have h: "height msg \<noteq> 0" "toCvCopy env msg ''bgr8'' = Inr img"
    by (simp_all split: sum.splits)
  from assms(1,4) On_image show ?thesis
    by (simp add: image_callback_agent[OF h] image_callback_events[OF h]
        init_block_first returns_def constructions_append image_switch_constructions
        split: option.splits)
next
  case (On_tuple env msg depth_msg cam)
  with assms obtain d where h: "height msg \<noteq> 0" "toCvCopy env msg ''bgr8'' = Inr img"
    "toCvCopy env depth_msg ''16UC1'' = Inr d"
    by (auto split: sum.splits)
  from assms(1,4) On_tuple show ?thesis
    by (simp add: localize_callback_agent[OF h] localize_callback_events[OF h]
        init_block_first returns_def constructions_append localize_body_constructions)
qed

text \<open>
  C8, as stated, fails: the block writes the dimensions, then constructs the engine, and
  sets the flag only after the construction has returned. A first frame of 640 by 480
  whose construction throws leaves the agent with these dimensions and not initialized;
  the next frame, 320 by 240, constructs the engine a second time and overwrites the
  locked dimensions.
\<close>

theorem initialization_repeated_counterexample:
  "height (frame 640 480) \<noteq> 0
   \<and> \<not> isInit (fresh_agent 2 False 0)
   \<and> thrown (image_callback broken_env (frame 640 480) (fresh_agent 2 False 0)) =
       Some (Foreign ''model'')
   \<and> \<not> isInit (agent (image_callback broken_env (frame 640 480) (fresh_agent 2 False 0)))
   \<and> getWidth (agent (image_callback broken_env (frame 640 480) (fresh_agent 2 False 0))) = 640
   \<and> getHeight (agent (image_callback broken_env (frame 640 480) (fresh_agent 2 False 0))) = 480
   \<and> constructions (snd (run [On_image broken_env (frame 640 480),
        On_image demo_env (frame 320 240)] (fresh_agent 2 False 0))) = 2
   \<and> getWidth (fst (run [On_image broken_env (frame 640 480),
        On_image demo_env (frame 320 240)] (fresh_agent 2 False 0))) = 320
   \<and> getHeight (fst (run [On_image broken_env (frame 640 480),
        On_image demo_env (frame 320 240)] (fresh_agent 2 False 0))) = 240"
proof -
  let ?a1 = "\<lparr>hasInit = False, frame_width = 640, frame_height = 480, precision_level = 2,
      visualize = False, useCaseMode = 0\<rparr>"
  let ?a2 = "\<lparr>hasInit = True, frame_width = 320, frame_height = 240, precision_level = 2,
      visualize = False, useCaseMode = 0\<rparr>"
  have first: "image_callback broken_env (frame 640 480) (fresh_agent 2 False 0) =
      \<lparr>agent = ?a1, events = [InitEngine 640 480], thrown = Some (Foreign ''model'')\<rparr>"
    by (simp add: eval_defs)
  have second: "agent (image_callback demo_env (frame 320 240) ?a1) = ?a2"
    "constructions (events (image_callback demo_env (frame 320 240) ?a1)) = 1"
    by (simp_all add: eval_defs upt_rec)
  show ?thesis
    by (simp add: first second Let_def)
      (simp add: frame_def fresh_agent_def isInit_def getWidth_def getHeight_def)
qed

text \<open>
  C8, amended: start with an agent that is not initialized. Frames of height 0, and frames
  that fail to decode, change nothing. The first frame that gets further, on either route,
  and whose engine construction returns, locks the width and height of that frame,
  constructs the engine and sets the initialized flag. Whatever is delivered afterwards,
  on either route and whether or not a callback throws, the agent stays initialized with
  the same locked width and height, and the engine has been constructed exactly once.
\<close>

theorem initialization_happens_once:
  assumes "\<not> isInit a"
    and "\<forall>i \<in> set before. height (primary i) = 0 \<or> decoded i = None"
    and "height (primary first) \<noteq> 0"
    and "decoded first = Some img"
    and "initORTSessionHandler (env_of first)
           (setFrameDimension (cols img) (rows img) a) = None"
  shows "isInit (fst (run (before @ first # rest) a))
       \<and> getWidth (fst (run (before @ first # rest) a)) = cols img
       \<and> getHeight (fst (run (before @ first # rest) a)) = rows img
       \<and> constructions (snd (run (before @ first # rest) a)) = 1"
proof -
  let ?a1 = "setInitBoolean True (setFrameDimension (cols img) (rows img) a)"
  have before: "fst (run before a) = a" "constructions (snd (run before a)) = 0"
    using run_empty_frames[OF assms(2)] by simp_all
  have first: "agent (deliver first a) = ?a1" "constructions (events (deliver first a)) = 1"
    using deliver_first[OF assms(1,3,4,5)] by simp_all
  have locked: "isInit ?a1"
    by (simp add: isInit_def setInitBoolean_def)
  have rest: "fst (run rest ?a1) = ?a1" "constructions (snd (run rest ?a1)) = 0"
    using run_locked[OF locked] by simp_all
  have "fst (run (before @ first # rest) a) = ?a1"
    by (simp add: run_append before first rest Let_def split_beta)
  moreover have "constructions (snd (run (before @ first # rest) a)) = 1"
    by (simp add: run_append before first rest Let_def split_beta constructions_append)
  ultimately show ?thesis
    by (simp add: isInit_def getWidth_def getHeight_def setInitBoolean_def
        setFrameDimension_def)
qed

theorem initialization_happens_once_witness:
  "isInit (fst (run ([On_image demo_env (frame 640 0), On_image deaf_env (frame 320 240)] @
        On_image demo_env (frame 640 480) #
        [On_tuple demo_env (frame 640 480) (frame 640 480) demo_cam,
         On_image demo_env (frame 320 240)]) (fresh_agent 2 False 0)))
   \<and> getWidth (fst (run ([On_image demo_env (frame 640 0),
        On_image deaf_env (frame 320 240)] @
        On_image demo_env (frame 640 480) #
        [On_tuple demo_env (frame 640 480) (frame 640 480) demo_cam,
         On_image demo_env (frame 320 240)]) (fresh_agent 2 False 0))) = 640
   \<and> getHeight (fst (run ([On_image demo_env (frame 640 0),
        On_image deaf_env (frame 320 240)] @
        On_image demo_env (frame 640 480) #
        [On_tuple demo_env (frame 640 480) (frame 640 480) demo_cam,
         On_image demo_env (frame 320 240)]) (fresh_agent 2 False 0))) = 480
   \<and> constructions (snd (run ([On_image demo_env (frame 640 0),
        On_image deaf_env (frame 320 240)] @
        On_image demo_env (frame 640 480) #
        [On_tuple demo_env (frame 640 480) (frame 640 480) demo_cam,
         On_image demo_env (frame 320 240)]) (fresh_agent 2 False 0))) = 1"
proof -
  let ?img = "\<lparr>cols = 640, rows = 480, pixels = []\<rparr>"
  let ?a = "fresh_agent 2 False 0"
  have h1: "\<not> isInit ?a" by (simp add: fresh_agent_def isInit_def)
  have h2: "\<forall>i \<in> set [On_image demo_env (frame 640 0), On_image deaf_env (frame 320 240)].
      height (primary i) = 0 \<or> decoded i = None"
    by (simp add: frame_def deaf_env_def)
  have h3: "height (primary (On_image demo_env (frame 640 480))) \<noteq> 0"
    by (simp add: frame_def)
  have h4: "decoded (On_image demo_env (frame 640 480)) = Some ?img"
    by (simp add: demo_env_def frame_def)
  have h5: "initORTSessionHandler (env_of (On_image demo_env (frame 640 480)))
           (setFrameDimension (cols ?img) (rows ?img) ?a) = None"
    by (simp add: demo_env_def)
  have dims: "cols ?img = 640" "rows ?img = 480" by simp_all
  show ?thesis
    using initialization_happens_once[OF h1 h2 h3 h4 h5,
        of "[On_tuple demo_env (frame 640 480) (frame 640 480) demo_cam,
             On_image demo_env (frame 320 240)]"]
    unfolding dims .
qed

end
